theory Spec2Isabelle
  imports Main "HOL-Library.Sublist" "HOL-Library.List_Lexorder" "HOL-Library.Char_ord"
begin

section \<open>Strings and errors\<close>

text \<open>
  Python strings are modelled as \<open>string\<close> (lists of 8-bit characters), so the model
  covers ASCII text. Python's \<open>needle in hay\<close> on strings is \<open>sublist needle hay\<close>
  and \<open>hay.startswith(p)\<close> is \<open>prefix p hay\<close>.
\<close>

text \<open>The exception classes the tools raise: \<open>FsError\<close> and \<open>CmdError\<close> are the
  repository's own subclasses of \<open>ValueError\<close>; a plain \<open>ValueError\<close> comes from the
  tokeniser, the response parser and the input guards, \<open>OSError\<close> from file and
  process operations, \<open>HTTPError\<close> from the model gateway.\<close>

datatype exn =
    FsError string
  | CmdError string
  | ValueError string
  | OSError string
  | HTTPError string

text \<open>\<open>str(exc)\<close>: the message of an exception.\<close>

fun str_exn :: "exn \<Rightarrow> string" where
  "str_exn (FsError m) = m"
| "str_exn (CmdError m) = m"
| "str_exn (ValueError m) = m"
| "str_exn (OSError m) = m"
| "str_exn (HTTPError m) = m"

text \<open>\<open>s.split(sep)\<close> for a one-character separator.\<close>

fun split_on :: "char \<Rightarrow> string \<Rightarrow> string list" where
  "split_on sep [] = [[]]"
| "split_on sep (c # cs) =
     (if c = sep then [] # split_on sep cs
      else (case split_on sep cs of
              [] \<Rightarrow> [[c]]
            | w # ws \<Rightarrow> (c # w) # ws))"

text \<open>\<open>s.lower()\<close> on ASCII text.\<close>

definition lower_char :: "char \<Rightarrow> char" where
  "lower_char c =
     (let n = (of_char c :: nat) in if 65 \<le> n \<and> n \<le> 90 then char_of (n + 32) else c)"

definition lower :: "string \<Rightarrow> string" where
  "lower s = map lower_char s"

text \<open>Python's whitespace test on one character (\<open>str.isspace\<close> on ASCII): space,
  tab, newline, vertical tab, form feed, carriage return and the separators 28 to 31.\<close>

definition is_space :: "char \<Rightarrow> bool" where
  "is_space c = (let n = (of_char c :: nat) in n = 32 \<or> (9 \<le> n \<and> n \<le> 13) \<or> (28 \<le> n \<and> n \<le> 31))"

definition lstrip :: "string \<Rightarrow> string" where
  "lstrip s = dropWhile is_space s"

definition strip :: "string \<Rightarrow> string" where
  "strip s = rev (dropWhile is_space (rev (dropWhile is_space s)))"

section \<open>Paths (pathlib on a POSIX platform)\<close>

text \<open>
  A \<open>Path\<close> is its anchor (absolute or not) and its components. Constructing a path
  from a string drops empty and \<open>.\<close> components and keeps \<open>..\<close>, as pathlib does.
\<close>

record path =
  is_absolute :: bool
  parts :: "string list"

definition Path :: "string \<Rightarrow> path" where
  "Path s = \<lparr> is_absolute = prefix ''/'' s,
              parts = filter (\<lambda>p. p \<noteq> [] \<and> p \<noteq> ''.'') (split_on CHR ''/'' s) \<rparr>"

text \<open>\<open>a / b\<close>: an absolute right operand replaces the left one.\<close>

definition joinpath :: "path \<Rightarrow> path \<Rightarrow> path" where
  "joinpath a b = (if is_absolute b then b
                   else \<lparr> is_absolute = is_absolute a, parts = parts a @ parts b \<rparr>)"

text \<open>\<open>p.name\<close>: the last component, or the empty string.\<close>

definition name :: "path \<Rightarrow> string" where
  "name p = (if parts p = [] then [] else last (parts p))"

text \<open>
  \<open>p.resolve()\<close>: make the path absolute against the process's working directory
  and remove \<open>..\<close> components (at the root, \<open>..\<close> stays at the root). The model is
  a file system without symbolic links, where resolution is this lexical walk.
\<close>

fun collapse :: "string list \<Rightarrow> string list \<Rightarrow> string list" where
  "collapse acc [] = acc"
| "collapse acc (c # cs) =
     (if c = ''..'' then collapse (butlast acc) cs else collapse (acc @ [c]) cs)"

definition resolve :: "string list \<Rightarrow> path \<Rightarrow> path" where
  "resolve cwd p =
     \<lparr> is_absolute = True,
       parts = collapse [] (if is_absolute p then parts p else cwd @ parts p) \<rparr>"

text \<open>\<open>p.is_relative_to(q)\<close>: same anchor, and the components of \<open>q\<close> lead those of \<open>p\<close>.\<close>

definition is_relative_to :: "path \<Rightarrow> path \<Rightarrow> bool" where
  "is_relative_to p q = (is_absolute p = is_absolute q \<and> prefix (parts q) (parts p))"

section \<open>fs\_tools.safe\_path\<close>

definition safe_path :: "string list \<Rightarrow> path \<Rightarrow> string \<Rightarrow> exn + path" where
  "safe_path cwd root0 path_str =
     (let root = resolve cwd root0;
          raw = Path path_str;
          candidate = (if is_absolute raw then raw else joinpath root raw);
          candidate = resolve cwd candidate
      in if \<not> is_relative_to candidate root
         then Inl (FsError (''Path escapes workspace: '' @ path_str))
         else Inr candidate)"


section \<open>Command tokenising (shlex.split in POSIX mode)\<close>

text \<open>
  \<open>_split_cmd\<close> calls \<open>shlex.split(cmd, posix=True)\<close> on a POSIX platform. The
  tokeniser is a state machine over the characters: between tokens, inside a word,
  inside a quotation (single or double) and after a backslash. Comments are off and
  every character that is not white space, a quote or a backslash is a word character.
  An unclosed quotation and a trailing backslash raise \<open>ValueError\<close>.
\<close>

datatype lex_state = In_space | In_word | In_quote char | In_escape lex_state

definition shlex_whitespace :: "char \<Rightarrow> bool" where
  "shlex_whitespace c = (c = CHR '' '' \<or> c = CHR 0x09 \<or> c = CHR 0x0D \<or> c = CHR 0x0A)"

definition shlex_quote :: "char \<Rightarrow> bool" where
  "shlex_quote c = (c = CHR 0x27 \<or> c = CHR 0x22)"

definition shlex_escape :: "char \<Rightarrow> bool" where
  "shlex_escape c = (c = CHR 0x5C)"

text \<open>Emitting a token in front of the tokens still to be read; an error raised
  later wins, since \<open>shlex.split\<close> returns nothing then.\<close>

fun emit :: "string \<Rightarrow> exn + string list \<Rightarrow> exn + string list" where
  "emit tok (Inl e) = Inl e"
| "emit tok (Inr toks) = Inr (tok # toks)"

fun read_tokens :: "lex_state \<Rightarrow> bool \<Rightarrow> string \<Rightarrow> string \<Rightarrow> exn + string list" where
  "read_tokens In_space quoted tok [] = Inr (if tok \<noteq> [] \<or> quoted then [tok] else [])"
| "read_tokens In_word quoted tok [] = Inr (if tok \<noteq> [] \<or> quoted then [tok] else [])"
| "read_tokens (In_quote q) quoted tok [] = Inl (ValueError ''No closing quotation'')"
| "read_tokens (In_escape es) quoted tok [] = Inl (ValueError ''No escaped character'')"
| "read_tokens In_space quoted tok (c # cs) =
     (if shlex_whitespace c then
        (if tok \<noteq> [] \<or> quoted then emit tok (read_tokens In_space False [] cs)
         else read_tokens In_space quoted tok cs)
      else if shlex_escape c then read_tokens (In_escape In_word) quoted tok cs
      else if shlex_quote c then read_tokens (In_quote c) quoted tok cs
      else read_tokens In_word quoted [c] cs)"
| "read_tokens (In_quote q) quoted tok (c # cs) =
     (if c = q then read_tokens In_word True tok cs
      else if shlex_escape c \<and> q = CHR 0x22 then read_tokens (In_escape (In_quote q)) True tok cs
      else read_tokens (In_quote q) True (tok @ [c]) cs)"
| "read_tokens (In_escape es) quoted tok (c # cs) =
     (case es of
        In_quote q \<Rightarrow>
          (if \<not> shlex_escape c \<and> c \<noteq> q
           then read_tokens es quoted (tok @ [CHR 0x5C] @ [c]) cs
           else read_tokens es quoted (tok @ [c]) cs)
      | _ \<Rightarrow> read_tokens es quoted (tok @ [c]) cs)"
| "read_tokens In_word quoted tok (c # cs) =
     (if shlex_whitespace c then
        (if tok \<noteq> [] \<or> quoted then emit tok (read_tokens In_space False [] cs)
         else read_tokens In_space quoted tok cs)
      else if shlex_quote c then read_tokens (In_quote c) quoted tok cs
      else if shlex_escape c then read_tokens (In_escape In_word) quoted tok cs
      else read_tokens In_word quoted (tok @ [c]) cs)"

definition shlex_split :: "string \<Rightarrow> exn + string list" where
  "shlex_split s = read_tokens In_space False [] s"

section \<open>cmd\_tools\<close>

definition DEFAULT_ALLOWLIST :: "string list" where
  "DEFAULT_ALLOWLIST = [''python'', ''python.exe'', ''pytest'', ''git'', ''pip'', ''ruff'']"

definition BLOCKLIST_TOKENS :: "string list" where
  "BLOCKLIST_TOKENS = [''sudo'', ''rm -rf'', ''curl'', ''wget'']"

definition split_cmd :: "string \<Rightarrow> exn + string list" where
  "split_cmd cmd = shlex_split cmd"

definition extract_exe :: "string \<Rightarrow> exn + string" where
  "extract_exe cmd =
     (case split_cmd cmd of
        Inl e \<Rightarrow> Inl e
      | Inr ps \<Rightarrow> (case ps of [] \<Rightarrow> Inl (CmdError ''Empty command'')
                            | p # _ \<Rightarrow> Inr (name (Path p))))"

definition ensure_within_root :: "string list \<Rightarrow> path \<Rightarrow> string \<Rightarrow> exn + path" where
  "ensure_within_root wd root0 cwd =
     (let root = resolve wd root0;
          p = Path cwd;
          p = (if \<not> is_absolute p then joinpath root p else p);
          p = resolve wd p
      in if \<not> is_relative_to p root
         then Inl (CmdError (''CWD escapes workspace: '' @ cwd))
         else Inr p)"

text \<open>
  What \<open>subprocess.run\<close> did: the process ran to its end, with an exit code and the
  captured standard output and standard error, or the call itself raised (the program
  could not be started, or the timeout expired).
\<close>

datatype proc_result =
    CompletedProcess int string string
  | Raised exn

text \<open>The dictionary \<open>{"returncode": ..., "output": ...}\<close> that \<open>run_cmd\<close> returns.\<close>

record cmd_result =
  returncode :: int
  output_text :: string

text \<open>\<open>xs[:k]\<close> with Python's meaning of a negative bound.\<close>

definition slice_to :: "int \<Rightarrow> 'a list \<Rightarrow> 'a list" where
  "slice_to k xs = (if 0 \<le> k then take (nat k) xs else take (length xs - nat (- k)) xs)"

text \<open>\<open>set(allowlist or DEFAULT_ALLOWLIST)\<close>: an absent or empty allow-list is the default one.\<close>

definition allow_set :: "string list option \<Rightarrow> string set" where
  "allow_set allowlist =
     (case allowlist of
        None \<Rightarrow> set DEFAULT_ALLOWLIST
      | Some l \<Rightarrow> (if l = [] then set DEFAULT_ALLOWLIST else set l))"

definition blocked :: "string \<Rightarrow> bool" where
  "blocked cmd_lower = list_ex (\<lambda>token. sublist token cmd_lower) BLOCKLIST_TOKENS"

text \<open>
  \<open>run_cmd\<close>. The process is started by the parameter \<open>spawn\<close>, which receives the
  command, the validated working directory, the timeout and the state of the world
  \<open>'w\<close> that the process may change; every exception of the source is an \<open>Inl\<close>.
\<close>

definition run_cmd ::
  "(string \<Rightarrow> path \<Rightarrow> int \<Rightarrow> 'w \<Rightarrow> proc_result \<times> 'w) \<Rightarrow> string list \<Rightarrow>
   string \<Rightarrow> string \<Rightarrow> path \<Rightarrow> string list option \<Rightarrow> int \<Rightarrow> int \<Rightarrow> 'w \<Rightarrow>
   (exn + cmd_result) \<times> 'w" where
  "run_cmd spawn wd cmd cwd root allowlist timeout max_output w =
     (let allow = allow_set allowlist in
      case extract_exe cmd of
        Inl e \<Rightarrow> (Inl e, w)
      | Inr exe \<Rightarrow>
          (let cmd_lower = lower cmd in
           if blocked cmd_lower then (Inl (CmdError ''Command contains blocked token''), w)
           else if exe \<notin> allow then (Inl (CmdError (''Command not allowed: '' @ exe)), w)
           else
             (case ensure_within_root wd root cwd of
                Inl e \<Rightarrow> (Inl e, w)
              | Inr safe_cwd \<Rightarrow>
                  (case spawn cmd safe_cwd timeout w of
                     (Raised e, w') \<Rightarrow> (Inl e, w')
                   | (CompletedProcess rc out err, w') \<Rightarrow>
                       (let output = out @ err;
                            output = (if int (length output) > max_output
                                      then slice_to max_output output @ [CHR 0x0A] @ ''...[truncated]''
                                      else output)
                        in (Inr \<lparr> returncode = rc, output_text = output \<rparr>, w'))))))"

text \<open>A process that exits with the given code and output and changes nothing,
  used to run the model on concrete commands.\<close>

definition exits_with :: "int \<Rightarrow> string \<Rightarrow> string \<Rightarrow> string \<Rightarrow> path \<Rightarrow> int \<Rightarrow> 'w \<Rightarrow> proc_result \<times> 'w" where
  "exits_with rc out err cmd cwd timeout w = (CompletedProcess rc out err, w)"


section \<open>JSON values\<close>

text \<open>
  The values \<open>json.loads\<close> returns and \<open>json.dumps\<close> prints. A number is carried as
  its literal text; an object is the list of its members in order.
\<close>

datatype json =
    JNull
  | JBool bool
  | JNumber string
  | JString string
  | JArray "json list"
  | JObject "(string \<times> json) list"

text \<open>\<open>sep.join(xs)\<close>.\<close>

fun join :: "string \<Rightarrow> string list \<Rightarrow> string" where
  "join sep [] = []"
| "join sep [x] = x"
| "join sep (x # y # ys) = x @ sep @ join sep (y # ys)"

definition hex_digit :: "nat \<Rightarrow> char" where
  "hex_digit n = (if n < 10 then char_of (48 + n) else char_of (87 + n))"

text \<open>One character inside a JSON string, as \<open>json.dumps\<close> prints it (ASCII only, the
  default): the short escapes, \<open>\u00XX\<close> for the other characters outside the
  printable range.\<close>

definition dumps_char :: "char \<Rightarrow> string" where
  "dumps_char c =
     (let n = (of_char c :: nat) in
      if c = CHR 0x22 then [CHR 0x5C, CHR 0x22]
      else if c = CHR 0x5C then [CHR 0x5C, CHR 0x5C]
      else if c = CHR 0x0A then [CHR 0x5C, CHR ''n'']
      else if c = CHR 0x0D then [CHR 0x5C, CHR ''r'']
      else if c = CHR 0x09 then [CHR 0x5C, CHR ''t'']
      else if c = CHR 0x08 then [CHR 0x5C, CHR ''b'']
      else if c = CHR 0x0C then [CHR 0x5C, CHR ''f'']
      else if n < 32 \<or> 126 < n then
        [CHR 0x5C, CHR ''u'', CHR ''0'', CHR ''0'', hex_digit (n div 16), hex_digit (n mod 16)]
      else [c])"

definition dumps_string :: "string \<Rightarrow> string" where
  "dumps_string s = [CHR 0x22] @ concat (map dumps_char s) @ [CHR 0x22]"

fun json_dumps :: "json \<Rightarrow> string" where
  "json_dumps JNull = ''null''"
| "json_dumps (JBool b) = (if b then ''true'' else ''false'')"
| "json_dumps (JNumber n) = n"
| "json_dumps (JString s) = dumps_string s"
| "json_dumps (JArray xs) = ''['' @ join '', '' (map json_dumps xs) @ '']''"
| "json_dumps (JObject kvs) =
     ''{'' @ join '', '' (map (\<lambda>kv. dumps_string (fst kv) @ '': '' @ json_dumps (snd kv)) kvs) @ ''}''"


section \<open>memory.store.MemoryStore\<close>

text \<open>
  The store is the directory \<open>base_dir\<close>: its note files, by their path relative to
  \<open>base_dir\<close> as the index writes it, and the dictionary kept in \<open>index.json\<close>, from a
  token to the list of note paths. Task identifiers are plain file names, so the note
  of a task is at \<open>lessons/<task_id>.md\<close>.
\<close>

record memory_store =
  note_files :: "string \<rightharpoonup> string"
  index :: "string \<rightharpoonup> string list"

text \<open>The store \<open>__init__\<close> leaves in a fresh directory: no note, the index \<open>{}\<close>.\<close>

definition empty_store :: memory_store where
  "empty_store = \<lparr> note_files = Map.empty, index = Map.empty \<rparr>"

definition is_token_char :: "char \<Rightarrow> bool" where
  "is_token_char c =
     (let n = (of_char c :: nat) in (97 \<le> n \<and> n \<le> 122) \<or> (48 \<le> n \<and> n \<le> 57))"

text \<open>\<open>re.findall\<close> of a character class repeated: the maximal runs of matching
  characters, left to right.\<close>

fun findall_runs :: "(char \<Rightarrow> bool) \<Rightarrow> string \<Rightarrow> string \<Rightarrow> string list" where
  "findall_runs P cur [] = (if cur = [] then [] else [cur])"
| "findall_runs P cur (c # cs) =
     (if P c then findall_runs P (cur @ [c]) cs
      else if cur = [] then findall_runs P [] cs
      else cur # findall_runs P [] cs)"

definition tokenize :: "string \<Rightarrow> string list" where
  "tokenize text = filter (\<lambda>token. token \<noteq> []) (findall_runs is_token_char [] (lower text))"

text \<open>\<open>index.get(token, [])\<close>.\<close>

definition index_get :: "(string \<rightharpoonup> string list) \<Rightarrow> string \<Rightarrow> string list" where
  "index_get idx token = (case idx token of None \<Rightarrow> [] | Some ps \<Rightarrow> ps)"

text \<open>\<open>scores[path] = scores.get(path, 0) + 1\<close> on a dictionary that keeps the order in
  which its keys were first inserted.\<close>

fun bump :: "string \<Rightarrow> (string \<times> int) list \<Rightarrow> (string \<times> int) list" where
  "bump p [] = [(p, 1)]"
| "bump p ((q, n) # rest) = (if q = p then (q, n + 1) # rest else (q, n) # bump p rest)"

definition score_all :: "(string \<rightharpoonup> string list) \<Rightarrow> string list \<Rightarrow> (string \<times> int) list" where
  "score_all idx tokens = fold (\<lambda>token scores. fold bump (index_get idx token) scores) tokens []"

text \<open>\<open>sorted(scores.items(), key=lambda item: item[1], reverse=True)\<close>: by falling
  score, equal scores in their order of insertion.\<close>

definition ranked :: "memory_store \<Rightarrow> string \<Rightarrow> (string \<times> int) list" where
  "ranked st query = sort_key (\<lambda>item. - snd item) (score_all (index st) (tokenize query))"

text \<open>\<open>retrieve\<close> reads the store and changes nothing, so it returns the store it was
  given. The source's default for \<open>limit\<close> is 3.\<close>

definition retrieve :: "string \<Rightarrow> int \<Rightarrow> memory_store \<Rightarrow> string list \<times> memory_store" where
  "retrieve query limit st =
     (List.map_filter (\<lambda>item. note_files st (fst item)) (slice_to limit (ranked st query)), st)"

definition format_note :: "(string \<times> json) list \<Rightarrow> string \<Rightarrow> string" where
  "format_note metadata content =
     (let header = ''---'' @ [CHR 0x0A];
          header = fold (\<lambda>kv h. h @ fst kv @ '': '' @ json_dumps (snd kv) @ [CHR 0x0A]) metadata header;
          header = header @ ''---'' @ [CHR 0x0A, CHR 0x0A]
      in header @ strip content @ [CHR 0x0A])"

text \<open>The body of the loop of \<open>_update_index\<close>:
  \<open>items = index.setdefault(token, [])\<close>, then the path is appended unless it is there.\<close>

definition index_add :: "string \<Rightarrow> string \<Rightarrow> (string \<rightharpoonup> string list) \<Rightarrow> (string \<rightharpoonup> string list)" where
  "index_add rel_path token idx =
     (let items = index_get idx token
      in idx(token \<mapsto> (if rel_path \<notin> set items then items @ [rel_path] else items)))"

definition update_index :: "string \<Rightarrow> string \<Rightarrow> memory_store \<Rightarrow> memory_store" where
  "update_index rel_path content st =
     st \<lparr> index := fold (index_add rel_path) (tokenize content) (index st) \<rparr>"

definition lesson_path :: "string \<Rightarrow> string" where
  "lesson_path task_id = ''lessons/'' @ task_id @ ''.md''"

definition write_lesson :: "string \<Rightarrow> string \<Rightarrow> (string \<times> json) list \<Rightarrow> memory_store \<Rightarrow> string \<times> memory_store" where
  "write_lesson task_id content metadata st =
     (let path = lesson_path task_id;
          note = format_note metadata content;
          st = st \<lparr> note_files := (note_files st)(path \<mapsto> note) \<rparr>;
          st = update_index path note st
      in (path, st))"

text \<open>The path is in the list that the index has for the token.\<close>

definition listed :: "string \<Rightarrow> (string \<rightharpoonup> string list) \<Rightarrow> string \<Rightarrow> bool" where
  "listed rel_path idx token = (\<exists>items. idx token = Some items \<and> rel_path \<in> set items)"

text \<open>Two concrete stores: one after three runs whose lessons share a token, and one
  whose index names a note that is no longer there.\<close>

definition three_lessons :: memory_store where
  "three_lessons =
     snd (write_lesson ''t3'' ''alpha three'' []
       (snd (write_lesson ''t2'' ''alpha two'' []
         (snd (write_lesson ''t1'' ''alpha one'' [] empty_store)))))"

definition stale_store :: memory_store where
  "stale_store = \<lparr> note_files = [''lessons/t1.md'' \<mapsto> ''alpha one''],
                   index = [''alpha'' \<mapsto> [''lessons/gone.md'', ''lessons/t1.md'']] \<rparr>"


section \<open>Reading JSON (json.loads)\<close>

text \<open>
  \<open>json.loads\<close> is modelled as an automaton that reads the text character by
  character: a mode for the token being read, what the grammar expects next, and the
  stack of the arrays and objects that are open. It accepts what Python's decoder
  accepts: the JSON grammar, the constants \<open>NaN\<close>, \<open>Infinity\<close> and \<open>-Infinity\<close>, no
  control character inside a string, nothing but white space after the value. A code
  point written \<open>\uXXXX\<close> is kept modulo 256, the characters of the model being bytes.
\<close>

datatype num_state = NMinus | NZero | NInt | NDot | NFrac | NExp | NExpSign | NExpDigits

datatype lex_mode =
    Idle
  | InStr string
  | InEsc string
  | InUni string string
  | InNum num_state string
  | InLit string json

datatype expect =
    ExpValue
  | ExpValueOrClose
  | ExpKeyOrClose
  | ExpKey
  | ExpColon
  | ExpCommaOrClose
  | Finished json

datatype frame = FArr "json list" | FObj "(string \<times> json) list" "string option"

type_synonym jstate = "lex_mode \<times> expect \<times> frame list"

definition json_ws :: "char \<Rightarrow> bool" where
  "json_ws c = (c = CHR '' '' \<or> c = CHR 0x09 \<or> c = CHR 0x0A \<or> c = CHR 0x0D)"

definition is_digit :: "char \<Rightarrow> bool" where
  "is_digit c = (let n = (of_char c :: nat) in 48 \<le> n \<and> n \<le> 57)"

definition is_hex :: "char \<Rightarrow> bool" where
  "is_hex c = (let n = (of_char c :: nat) in
                 (48 \<le> n \<and> n \<le> 57) \<or> (65 \<le> n \<and> n \<le> 70) \<or> (97 \<le> n \<and> n \<le> 102))"

definition hex_val :: "char \<Rightarrow> nat" where
  "hex_val c = (let n = (of_char c :: nat) in
                  if n \<le> 57 then n - 48 else if n \<le> 70 then n - 55 else n - 87)"

definition hex_value :: "string \<Rightarrow> nat" where
  "hex_value hs = foldl (\<lambda>acc c. 16 * acc + hex_val c) 0 hs"

definition unescape :: "char \<Rightarrow> char option" where
  "unescape c =
     (if c = CHR 0x22 then Some (CHR 0x22)
      else if c = CHR 0x5C then Some (CHR 0x5C)
      else if c = CHR ''/'' then Some (CHR ''/'')
      else if c = CHR ''b'' then Some (CHR 0x08)
      else if c = CHR ''f'' then Some (CHR 0x0C)
      else if c = CHR ''n'' then Some (CHR 0x0A)
      else if c = CHR ''r'' then Some (CHR 0x0D)
      else if c = CHR ''t'' then Some (CHR 0x09)
      else None)"

definition is_exp_mark :: "char \<Rightarrow> bool" where
  "is_exp_mark c = (c = CHR ''e'' \<or> c = CHR ''E'')"

fun num_next :: "num_state \<Rightarrow> char \<Rightarrow> num_state option" where
  "num_next NMinus c = (if c = CHR ''0'' then Some NZero else if is_digit c then Some NInt else None)"
| "num_next NZero c = (if c = CHR ''.'' then Some NDot else if is_exp_mark c then Some NExp else None)"
| "num_next NInt c = (if is_digit c then Some NInt else if c = CHR ''.'' then Some NDot
                      else if is_exp_mark c then Some NExp else None)"
| "num_next NDot c = (if is_digit c then Some NFrac else None)"
| "num_next NFrac c = (if is_digit c then Some NFrac else if is_exp_mark c then Some NExp else None)"
| "num_next NExp c = (if c = CHR ''+'' \<or> c = CHR ''-'' then Some NExpSign
                      else if is_digit c then Some NExpDigits else None)"
| "num_next NExpSign c = (if is_digit c then Some NExpDigits else None)"
| "num_next NExpDigits c = (if is_digit c then Some NExpDigits else None)"

fun num_complete :: "num_state \<Rightarrow> bool" where
  "num_complete NZero = True"
| "num_complete NInt = True"
| "num_complete NFrac = True"
| "num_complete NExpDigits = True"
| "num_complete _ = False"

text \<open>A value is complete: it is the document, an element of the open array, or the
  value of the pending key of the open object.\<close>

fun push_value :: "json \<Rightarrow> frame list \<Rightarrow> jstate option" where
  "push_value v [] = Some (Idle, Finished v, [])"
| "push_value v (FArr xs # st) = Some (Idle, ExpCommaOrClose, FArr (xs @ [v]) # st)"
| "push_value v (FObj ms (Some k) # st) = Some (Idle, ExpCommaOrClose, FObj (ms @ [(k, v)]) None # st)"
| "push_value v (FObj ms None # st) = None"

fun close_array :: "frame list \<Rightarrow> jstate option" where
  "close_array (FArr xs # st) = push_value (JArray xs) st"
| "close_array _ = None"

fun close_object :: "frame list \<Rightarrow> jstate option" where
  "close_object (FObj ms None # st) = push_value (JObject ms) st"
| "close_object _ = None"

definition accepts_value :: "expect \<Rightarrow> bool" where
  "accepts_value e = (e = ExpValue \<or> e = ExpValueOrClose)"

definition accepts_key :: "expect \<Rightarrow> bool" where
  "accepts_key e = (e = ExpKeyOrClose \<or> e = ExpKey)"

text \<open>The closing quote of a string: a key of the open object, or a string value.\<close>

fun end_string :: "string \<Rightarrow> expect \<Rightarrow> frame list \<Rightarrow> jstate option" where
  "end_string s e st =
     (if accepts_key e then
        (case st of
           FObj ms None # rest \<Rightarrow> Some (Idle, ExpColon, FObj ms (Some s) # rest)
         | _ \<Rightarrow> None)
      else if accepts_value e then push_value (JString s) st
      else None)"

text \<open>One character between tokens.\<close>

definition idle_step :: "char \<Rightarrow> expect \<Rightarrow> frame list \<Rightarrow> jstate option" where
  "idle_step c e st =
     (if json_ws c then Some (Idle, e, st)
      else if c = CHR 0x22 then
        (if accepts_value e \<or> accepts_key e then Some (InStr [], e, st) else None)
      else if accepts_value e then
        (if c = CHR ''['' then Some (Idle, ExpValueOrClose, FArr [] # st)
         else if c = CHR ''{'' then Some (Idle, ExpKeyOrClose, FObj [] None # st)
         else if c = CHR '']'' \<and> e = ExpValueOrClose then close_array st
         else if c = CHR ''-'' then Some (InNum NMinus [c], e, st)
         else if c = CHR ''0'' then Some (InNum NZero [c], e, st)
         else if is_digit c then Some (InNum NInt [c], e, st)
         else if c = CHR ''n'' then Some (InLit ''ull'' JNull, e, st)
         else if c = CHR ''t'' then Some (InLit ''rue'' (JBool True), e, st)
         else if c = CHR ''f'' then Some (InLit ''alse'' (JBool False), e, st)
         else if c = CHR ''N'' then Some (InLit ''aN'' (JNumber ''NaN''), e, st)
         else if c = CHR ''I'' then Some (InLit ''nfinity'' (JNumber ''Infinity''), e, st)
         else None)
      else if e = ExpKeyOrClose \<and> c = CHR ''}'' then close_object st
      else if e = ExpColon \<and> c = CHR '':'' then Some (Idle, ExpValue, st)
      else if e = ExpCommaOrClose then
        (case st of
           FArr xs # rest \<Rightarrow>
             (if c = CHR '','' then Some (Idle, ExpValue, st)
              else if c = CHR '']'' then close_array st else None)
         | FObj ms None # rest \<Rightarrow>
             (if c = CHR '','' then Some (Idle, ExpKey, st)
              else if c = CHR ''}'' then close_object st else None)
         | _ \<Rightarrow> None)
      else None)"

text \<open>One character in any mode. A character that cannot continue a number ends
  the number, if it is complete, and is then read as a character between tokens.\<close>

fun json_step :: "char \<Rightarrow> jstate \<Rightarrow> jstate option" where
  "json_step c (Idle, e, st) = idle_step c e st"
| "json_step c (InStr acc, e, st) =
     (if c = CHR 0x22 then end_string acc e st
      else if c = CHR 0x5C then Some (InEsc acc, e, st)
      else if (of_char c :: nat) < 32 then None
      else Some (InStr (acc @ [c]), e, st))"
| "json_step c (InEsc acc, e, st) =
     (case unescape c of
        Some ch \<Rightarrow> Some (InStr (acc @ [ch]), e, st)
      | None \<Rightarrow> (if c = CHR ''u'' then Some (InUni acc [], e, st) else None))"
| "json_step c (InUni acc hs, e, st) =
     (if is_hex c then
        (if length hs = 3 then Some (InStr (acc @ [char_of (hex_value (hs @ [c]))]), e, st)
         else Some (InUni acc (hs @ [c]), e, st))
      else None)"
| "json_step c (InNum ns txt, e, st) =
     (case num_next ns c of
        Some ns' \<Rightarrow> Some (InNum ns' (txt @ [c]), e, st)
      | None \<Rightarrow>
          (if ns = NMinus \<and> c = CHR ''I'' then Some (InLit ''nfinity'' (JNumber ''-Infinity''), e, st)
           else if num_complete ns then
             (case push_value (JNumber txt) st of
                Some (m, e', st') \<Rightarrow> idle_step c e' st'
              | None \<Rightarrow> None)
           else None))"
| "json_step c (InLit remaining v, e, st) =
     (case remaining of
        [] \<Rightarrow> None
      | r # rs \<Rightarrow>
          (if c = r then (if rs = [] then push_value v st else Some (InLit rs v, e, st))
           else None))"

fun json_run :: "string \<Rightarrow> jstate \<Rightarrow> jstate option" where
  "json_run [] s = Some s"
| "json_run (c # cs) s = (case json_step c s of None \<Rightarrow> None | Some s' \<Rightarrow> json_run cs s')"

text \<open>The end of the text: the document must be complete.\<close>

fun json_end :: "jstate \<Rightarrow> json option" where
  "json_end (Idle, Finished v, []) = Some v"
| "json_end (InNum ns txt, e, []) = (if num_complete ns \<and> accepts_value e then Some (JNumber txt) else None)"
| "json_end _ = None"

definition json_loads :: "string \<Rightarrow> json option" where
  "json_loads s =
     (case json_run s (Idle, ExpValue, []) of
        None \<Rightarrow> None
      | Some final \<Rightarrow> json_end final)"


section \<open>schema: actions and the model's response\<close>

text \<open>The five action classes, a closed union discriminated by \<open>tool\<close>.\<close>

datatype action =
    WriteFileAction string string
  | ReadFileAction string
  | ListDirAction string
  | SearchInFilesAction string string
  | RunCmdAction string string

record action_response =
  thought :: string
  actions :: "action list"

text \<open>\<open>action.tool\<close>.\<close>

fun tool :: "action \<Rightarrow> string" where
  "tool (WriteFileAction p c) = ''write_file''"
| "tool (ReadFileAction p) = ''read_file''"
| "tool (ListDirAction p) = ''list_dir''"
| "tool (SearchInFilesAction p q) = ''search_in_files''"
| "tool (RunCmdAction c d) = ''run_cmd''"

text \<open>
  Validation of a decoded object against a class with \<open>extra="forbid"\<close>. The members
  of an object are a dictionary: a repeated key has its last value. A \<open>str\<close> field
  accepts a JSON string and nothing else.
\<close>

definition member :: "(string \<times> json) list \<Rightarrow> string \<Rightarrow> json option" where
  "member ms k = map_of (rev ms) k"

definition str_field :: "(string \<times> json) list \<Rightarrow> string \<Rightarrow> string option" where
  "str_field ms k = (case member ms k of Some (JString s) \<Rightarrow> Some s | _ \<Rightarrow> None)"

definition keys_within :: "(string \<times> json) list \<Rightarrow> string list \<Rightarrow> bool" where
  "keys_within ms allowed = list_all (\<lambda>kv. fst kv \<in> set allowed) ms"

text \<open>An action: the first class of the union that validates. The \<open>tool\<close> literals
  differ, so at most one does.\<close>

fun validate_action :: "json \<Rightarrow> action option" where
  "validate_action (JObject ms) =
     (if str_field ms ''tool'' = Some ''write_file'' \<and> keys_within ms [''tool'', ''path'', ''content''] then
        (case (str_field ms ''path'', str_field ms ''content'') of
           (Some p, Some c) \<Rightarrow> Some (WriteFileAction p c)
         | _ \<Rightarrow> None)
      else if str_field ms ''tool'' = Some ''read_file'' \<and> keys_within ms [''tool'', ''path''] then
        (case str_field ms ''path'' of Some p \<Rightarrow> Some (ReadFileAction p) | None \<Rightarrow> None)
      else if str_field ms ''tool'' = Some ''list_dir'' \<and> keys_within ms [''tool'', ''path''] then
        (case str_field ms ''path'' of Some p \<Rightarrow> Some (ListDirAction p) | None \<Rightarrow> None)
      else if str_field ms ''tool'' = Some ''search_in_files'' \<and> keys_within ms [''tool'', ''path'', ''query''] then
        (case (str_field ms ''path'', str_field ms ''query'') of
           (Some p, Some q) \<Rightarrow> Some (SearchInFilesAction p q)
         | _ \<Rightarrow> None)
      else if str_field ms ''tool'' = Some ''run_cmd'' \<and> keys_within ms [''tool'', ''cmd'', ''cwd''] then
        (case (str_field ms ''cmd'', str_field ms ''cwd'') of
           (Some c, Some d) \<Rightarrow> Some (RunCmdAction c d)
         | _ \<Rightarrow> None)
      else None)"
| "validate_action _ = None"

text \<open>All elements validate, or the list does not.\<close>

fun validate_all :: "json list \<Rightarrow> action list option" where
  "validate_all [] = Some []"
| "validate_all (j # js) =
     (case validate_action j of
        None \<Rightarrow> None
      | Some a \<Rightarrow> (case validate_all js of None \<Rightarrow> None | Some as \<Rightarrow> Some (a # as)))"

text \<open>\<open>ActionResponse.model_validate\<close>: \<open>thought\<close> is required, \<open>actions\<close> defaults to
  the empty list, no other key is allowed.\<close>

fun model_validate :: "json \<Rightarrow> action_response option" where
  "model_validate (JObject ms) =
     (if \<not> keys_within ms [''thought'', ''actions''] then None
      else case str_field ms ''thought'' of
        None \<Rightarrow> None
      | Some t \<Rightarrow>
          (case member ms ''actions'' of
             None \<Rightarrow> Some \<lparr> thought = t, actions = [] \<rparr>
           | Some (JArray js) \<Rightarrow>
               (case validate_all js of
                  None \<Rightarrow> None
                | Some as \<Rightarrow> Some \<lparr> thought = t, actions = as \<rparr>)
           | Some _ \<Rightarrow> None))"
| "model_validate _ = None"

definition parse_action_response :: "string \<Rightarrow> exn + action_response" where
  "parse_action_response text =
     (let payload = strip text in
      case json_loads payload of
        None \<Rightarrow> Inl (ValueError ''Invalid JSON from model'')
      | Some data \<Rightarrow>
          (case model_validate data of
             None \<Rightarrow> Inl (ValueError ''Invalid action schema'')
           | Some response \<Rightarrow> Inr response))"


section \<open>The file system and fs\_tools\<close>

text \<open>
  The files and directories, by their resolved absolute path (its components). The
  root directory always exists. Messages of operating-system errors are shortened.
\<close>

datatype node = File string | Dir

type_synonym fs = "(string list \<times> node) list"

definition lookup :: "fs \<Rightarrow> string list \<Rightarrow> node option" where
  "lookup fsys p = (if p = [] then Some Dir else map_of fsys p)"

text \<open>\<open>path.exists()\<close>.\<close>

definition path_exists :: "fs \<Rightarrow> string list \<Rightarrow> bool" where
  "path_exists fsys p = (lookup fsys p \<noteq> None)"

fun put :: "string list \<Rightarrow> node \<Rightarrow> fs \<Rightarrow> fs" where
  "put p n [] = [(p, n)]"
| "put p n ((q, m) # rest) = (if q = p then (p, n) # rest else (q, m) # put p n rest)"

text \<open>\<open>str(path)\<close>.\<close>

definition str_path :: "path \<Rightarrow> string" where
  "str_path p =
     (if is_absolute p then ''/'' @ join ''/'' (parts p)
      else if parts p = [] then ''.'' else join ''/'' (parts p))"

text \<open>\<open>mkdir(parents=True, exist_ok=True)\<close> on the directory with the components
  \<open>done @ todo\<close>: every missing ancestor is created; a file in the way is an error.\<close>

fun mkdir_parents :: "string list \<Rightarrow> string list \<Rightarrow> fs \<Rightarrow> exn + fs" where
  "mkdir_parents done [] fsys = Inr fsys"
| "mkdir_parents done (c # todo) fsys =
     (let p = done @ [c] in
      case lookup fsys p of
        Some (File _) \<Rightarrow> Inl (OSError (''File exists: /'' @ join ''/'' p))
      | Some Dir \<Rightarrow> mkdir_parents p todo fsys
      | None \<Rightarrow> mkdir_parents p todo (fsys @ [(p, Dir)]))"

definition read_file :: "string list \<Rightarrow> path \<Rightarrow> string \<Rightarrow> fs \<Rightarrow> exn + string" where
  "read_file cwd root path_str fsys =
     (case safe_path cwd root path_str of
        Inl e \<Rightarrow> Inl e
      | Inr path \<Rightarrow>
          (case lookup fsys (parts path) of
             Some (File text) \<Rightarrow> Inr text
           | Some Dir \<Rightarrow> Inl (OSError (''Is a directory: '' @ str_path path))
           | None \<Rightarrow> Inl (OSError (''No such file or directory: '' @ str_path path))))"

text \<open>\<open>write_file\<close>: an error leaves the file system as it was, except that the parent
  directories stay created when the target itself is a directory.\<close>

definition write_file :: "string list \<Rightarrow> path \<Rightarrow> string \<Rightarrow> string \<Rightarrow> fs \<Rightarrow> (exn + string) \<times> fs" where
  "write_file cwd root path_str content fsys =
     (case safe_path cwd root path_str of
        Inl e \<Rightarrow> (Inl e, fsys)
      | Inr path \<Rightarrow>
          (case mkdir_parents [] (butlast (parts path)) fsys of
             Inl e \<Rightarrow> (Inl e, fsys)
           | Inr fsys' \<Rightarrow>
               (case lookup fsys' (parts path) of
                  Some Dir \<Rightarrow> (Inl (OSError (''Is a directory: '' @ str_path path)), fsys')
                | _ \<Rightarrow> (Inr (''wrote '' @ str_path path), put (parts path) (File content) fsys'))))"

text \<open>The entries directly inside a directory, and everything below it.\<close>

definition children :: "fs \<Rightarrow> string list \<Rightarrow> string list list" where
  "children fsys p = filter (\<lambda>k. k \<noteq> [] \<and> butlast k = p) (remdups (map fst fsys))"

definition descendants :: "fs \<Rightarrow> string list \<Rightarrow> string list list" where
  "descendants fsys p = filter (\<lambda>k. strict_prefix p k) (remdups (map fst fsys))"

definition list_dir :: "string list \<Rightarrow> path \<Rightarrow> string \<Rightarrow> fs \<Rightarrow> exn + string list" where
  "list_dir cwd root path_str fsys =
     (case safe_path cwd root path_str of
        Inl e \<Rightarrow> Inl e
      | Inr path \<Rightarrow>
          (if \<not> path_exists fsys (parts path) then Inl (FsError (''Path not found: '' @ str_path path))
           else case lookup fsys (parts path) of
             Some (File _) \<Rightarrow> Inl (OSError (''Not a directory: '' @ str_path path))
           | _ \<Rightarrow>
               Inr (map (\<lambda>entry. last entry @ (if lookup fsys entry = Some Dir then ''/'' else ''''))
                        (sort_key last (children fsys (parts path))))))"

text \<open>\<open>text.splitlines()\<close> on ASCII text: a line ends at a line feed, a carriage return
  (with the line feed that follows it), a vertical tab, a form feed or one of the
  separators 28 to 30; no empty last line.\<close>

definition is_line_break :: "char \<Rightarrow> bool" where
  "is_line_break c = (let n = (of_char c :: nat) in (10 \<le> n \<and> n \<le> 13) \<or> (28 \<le> n \<and> n \<le> 30))"

fun splitlines_from :: "bool \<Rightarrow> string \<Rightarrow> string \<Rightarrow> string list" where
  "splitlines_from after_cr cur [] = (if cur = [] then [] else [cur])"
| "splitlines_from after_cr cur (c # cs) =
     (if after_cr \<and> c = CHR 0x0A then splitlines_from False cur cs
      else if is_line_break c then cur # splitlines_from (c = CHR 0x0D) [] cs
      else splitlines_from False (cur @ [c]) cs)"

definition splitlines :: "string \<Rightarrow> string list" where
  "splitlines s = splitlines_from False [] s"

text \<open>\<open>p.relative_to(root)\<close>, a comparison of components; \<open>root\<close> is taken as it was
  given, not resolved.\<close>

definition relative_to :: "path \<Rightarrow> path \<Rightarrow> exn + string" where
  "relative_to p root =
     (if is_absolute p = is_absolute root \<and> prefix (parts root) (parts p)
      then Inr (let rest = drop (length (parts root)) (parts p)
                in if rest = [] then ''.'' else join ''/'' rest)
      else Inl (ValueError (str_path p @ '' is not in the subpath of '' @ str_path root)))"

text \<open>A match record: path, line number, stripped line.\<close>

type_synonym match = "string \<times> int \<times> string"

text \<open>\<open>enumerate(xs, start=1)\<close>.\<close>

definition enumerate1 :: "'a list \<Rightarrow> (int \<times> 'a) list" where
  "enumerate1 xs = zip (map int [1 ..< Suc (length xs)]) xs"

text \<open>The loop over the files below the base directory: in each file the numbered
  lines that contain the query; the path relative to the root is computed when a file
  has a match, and raises when the file is not under the root as given.\<close>

fun search_files :: "fs \<Rightarrow> path \<Rightarrow> string \<Rightarrow> string list list \<Rightarrow> exn + match list" where
  "search_files fsys root query [] = Inr []"
| "search_files fsys root query (k # ks) =
     (case lookup fsys k of
        Some (File text) \<Rightarrow>
          (let hits = filter (\<lambda>il. sublist query (snd il)) (enumerate1 (splitlines text)) in
           if hits = [] then search_files fsys root query ks
           else case relative_to \<lparr> is_absolute = True, parts = k \<rparr> root of
             Inl e \<Rightarrow> Inl e
           | Inr rel \<Rightarrow>
               (case search_files fsys root query ks of
                  Inl e \<Rightarrow> Inl e
                | Inr later \<Rightarrow> Inr (map (\<lambda>il. (rel, fst il, strip (snd il))) hits @ later)))
      | _ \<Rightarrow> search_files fsys root query ks)"

definition search_in_files :: "string list \<Rightarrow> path \<Rightarrow> string \<Rightarrow> string \<Rightarrow> fs \<Rightarrow> exn + match list" where
  "search_in_files cwd root path_str query fsys =
     (case safe_path cwd root path_str of
        Inl e \<Rightarrow> Inl e
      | Inr base \<Rightarrow>
          (if \<not> path_exists fsys (parts base) then Inl (FsError (''Path not found: '' @ str_path base))
           else search_files fsys root query (descendants fsys (parts base))))"


section \<open>The orchestrator\<close>

subsection \<open>Task, run state, world\<close>

text \<open>The entries of \<open>task.constraints\<close> that the orchestrator reads; an absent key is
  \<open>None\<close>.\<close>

record constraints =
  iteration_limit :: "int option"
  time_budget_iters :: "int option"
  test_cmd :: "string option"

record task =
  task_id :: string
  title :: string
  goal :: string
  task_constraints :: constraints
  task_context :: "(string \<times> json) list"

text \<open>The dictionary \<open>state\<close>. The phase is a string: a resumed \<open>state.json\<close> may hold
  any value.\<close>

record run_state =
  phase :: string
  iteration :: int
  last_result :: "string option"
  open_items :: "string list"
  files_touched :: "string list"

definition initial_state :: run_state where
  "initial_state = \<lparr> phase = ''INGEST'', iteration = 0, last_result = None,
                      open_items = [], files_touched = [] \<rparr>"

text \<open>
  What a run does to the outside, in order: a branch of the loop is entered for a
  phase, \<open>state.json\<close> is written, a lesson is written to the memory store.
\<close>

datatype event =
    PhaseBody string
  | StateWritten run_state
  | LessonWritten string

text \<open>
  The world a run acts on: the files, the memory store, the content of \<open>state.json\<close>,
  a counter that advances at each model turn and each \<open>run_cmd\<close> and tells the calls
  to the outside apart, and the events so far. The append-only logs are left out: they are written and never read.
\<close>

record world =
  w_files :: fs
  w_memory :: memory_store
  w_state_json :: "run_state option"
  w_calls :: nat
  w_events :: "event list"

text \<open>
  What the run cannot decide: the working directory of the process, today's date,
  the reply of the model gateway to the n-th call (a completion, or the exception of
  the transport) and what the n-th started process does. The reply may depend on the
  messages sent in any way; indexing it by the call covers every such dependence, so
  the message texts are not built.
\<close>

record env =
  env_cwd :: "string list"
  env_today :: string
  env_chat :: "nat \<Rightarrow> exn + string"
  env_spawn :: "nat \<Rightarrow> string \<Rightarrow> path \<Rightarrow> int \<Rightarrow> fs \<Rightarrow> proc_result \<times> fs"

text \<open>What an action returned, or the error record \<open>{"error": ...}\<close>.\<close>

datatype tool_result =
    ResText string
  | ResEntries "string list"
  | ResMatches "match list"
  | ResCmd cmd_result
  | ResError string

subsection \<open>Input guards\<close>

definition is_placeholder :: "string \<Rightarrow> bool" where
  "is_placeholder v = (let stripped = strip v in stripped = [] \<or> stripped = ''...'')"

text \<open>\<open>s.replace("\\", "/")\<close>.\<close>

definition backslash_to_slash :: "string \<Rightarrow> string" where
  "backslash_to_slash s = map (\<lambda>c. if c = CHR 0x5C then CHR ''/'' else c) s"

definition validate_action_inputs :: "bool \<Rightarrow> action \<Rightarrow> string option" where
  "validate_action_inputs goal_prints a =
     (case a of
        WriteFileAction p content \<Rightarrow>
          (if is_placeholder p then Some ''write_file path is missing or placeholder''
           else
             (let lower_path = lower (backslash_to_slash p) in
              if suffix ''pytest.ini'' lower_path \<and> \<not> prefix ''[pytest]'' (lower (lstrip content))
              then Some ''pytest.ini must start with [pytest]''
              else if sublist ''/test_'' lower_path \<or> prefix ''test_'' lower_path then
                (if \<not> sublist ''def test_'' content
                 then Some ''test file must include pytest-style test functions''
                 else if sublist ''unittest'' content
                 then Some ''test file must use pytest, not unittest''
                 else if goal_prints \<and> \<not> sublist ''capsys'' content \<and> \<not> sublist ''capfd'' content
                           \<and> \<not> sublist ''subprocess'' content
                 then Some ''tests must capture stdout (capsys/capfd or subprocess)''
                 else None)
              else None))
      | ReadFileAction p \<Rightarrow>
          (if is_placeholder p then Some ''read_file path is missing or placeholder'' else None)
      | ListDirAction p \<Rightarrow>
          (if is_placeholder p then Some ''list_dir path is missing or placeholder'' else None)
      | SearchInFilesAction p q \<Rightarrow>
          (if is_placeholder p \<or> is_placeholder q
           then Some ''search_in_files path/query is missing or placeholder'' else None)
      | RunCmdAction c d \<Rightarrow>
          (if is_placeholder c \<or> is_placeholder d
           then Some ''run_cmd cmd/cwd is missing or placeholder'' else None))"

subsection \<open>Executing the actions of a turn\<close>

text \<open>\<open>if placeholder_error:\<close> is true for a non-empty message.\<close>

definition truthy :: "string option \<Rightarrow> bool" where
  "truthy v = (case v of None \<Rightarrow> False | Some s \<Rightarrow> s \<noteq> [])"

text \<open>
  One turn of the loop of \<open>_execute_actions\<close>: the guards, then the tool; whatever is
  raised becomes an error record. The result, the paths to add to \<open>touched\<close>, the world.
\<close>

definition execute_action :: "env \<Rightarrow> path \<Rightarrow> bool \<Rightarrow> action \<Rightarrow> world \<Rightarrow> tool_result \<times> string list \<times> world" where
  "execute_action ev workspace goal_prints a w =
     (let placeholder_error = validate_action_inputs goal_prints a in
      if truthy placeholder_error then (ResError (the placeholder_error), [], w)
      else case a of
        WriteFileAction p content \<Rightarrow>
          (case write_file (env_cwd ev) workspace p content (w_files w) of
             (Inl e, fsys) \<Rightarrow> (ResError (str_exn e), [], w \<lparr> w_files := fsys \<rparr>)
           | (Inr r, fsys) \<Rightarrow> (ResText r, [p], w \<lparr> w_files := fsys \<rparr>))
      | ReadFileAction p \<Rightarrow>
          (case read_file (env_cwd ev) workspace p (w_files w) of
             Inl e \<Rightarrow> (ResError (str_exn e), [], w)
           | Inr r \<Rightarrow> (ResText r, [], w))
      | ListDirAction p \<Rightarrow>
          (case list_dir (env_cwd ev) workspace p (w_files w) of
             Inl e \<Rightarrow> (ResError (str_exn e), [], w)
           | Inr r \<Rightarrow> (ResEntries r, [], w))
      | SearchInFilesAction p q \<Rightarrow>
          (case search_in_files (env_cwd ev) workspace p q (w_files w) of
             Inl e \<Rightarrow> (ResError (str_exn e), [], w)
           | Inr r \<Rightarrow> (ResMatches r, [], w))
      | RunCmdAction c d \<Rightarrow>
          (case run_cmd (env_spawn ev (w_calls w)) (env_cwd ev) c d workspace None 30 4000 (w_files w) of
             (Inl e, fsys) \<Rightarrow> (ResError (str_exn e), [], w \<lparr> w_files := fsys, w_calls := Suc (w_calls w) \<rparr>)
           | (Inr r, fsys) \<Rightarrow> (ResCmd r, [], w \<lparr> w_files := fsys, w_calls := Suc (w_calls w) \<rparr>)))"

fun execute_actions :: "env \<Rightarrow> path \<Rightarrow> bool \<Rightarrow> action list \<Rightarrow> world \<Rightarrow> tool_result list \<times> string list \<times> world" where
  "execute_actions ev workspace goal_prints [] w = ([], [], w)"
| "execute_actions ev workspace goal_prints (a # rest) w =
     (case execute_action ev workspace goal_prints a w of
        (result, touched, w') \<Rightarrow>
          (case execute_actions ev workspace goal_prints rest w' of
             (results, touched', w'') \<Rightarrow> (result # results, touched @ touched', w'')))"

fun is_error :: "tool_result \<Rightarrow> bool" where
  "is_error (ResError m) = True"
| "is_error _ = False"

definition has_errors :: "tool_result list \<Rightarrow> bool" where
  "has_errors results = list_ex is_error results"

fun merge_touched :: "string list \<Rightarrow> string list \<Rightarrow> string list" where
  "merge_touched merged [] = merged"
| "merge_touched merged (p # new) =
     (if p \<notin> set merged then merge_touched (merged @ [p]) new else merge_touched merged new)"


subsection \<open>The model turn\<close>

text \<open>
  \<open>_model_turn\<close>: the reply of the gateway is parsed; a reply that does not parse
  gives the empty response with thought \<open>invalid_json\<close> and the message of the error.
  Only an exception of the gateway itself leaves the function as an exception.
\<close>

definition model_turn :: "env \<Rightarrow> string \<Rightarrow> world \<Rightarrow> (exn + (action_response \<times> string option)) \<times> world" where
  "model_turn ev prompt w =
     (let w' = w \<lparr> w_calls := Suc (w_calls w) \<rparr> in
      case env_chat ev (w_calls w) of
        Inl e \<Rightarrow> (Inl e, w')
      | Inr response_text \<Rightarrow>
          (case parse_action_response response_text of
             Inr response \<Rightarrow> (Inr (response, None), w')
           | Inl exc \<Rightarrow> (Inr (\<lparr> thought = ''invalid_json'', actions = [] \<rparr>, Some (str_exn exc)), w')))"

subsection \<open>Writing the state and the lesson\<close>

definition write_state :: "run_state \<Rightarrow> world \<Rightarrow> world" where
  "write_state s w = w \<lparr> w_state_json := Some s, w_events := w_events w @ [StateWritten s] \<rparr>"

text \<open>\<open>str(x)\<close> of an optional string inside an f-string.\<close>

definition str_opt :: "string option \<Rightarrow> string" where
  "str_opt v = (case v of None \<Rightarrow> ''None'' | Some s \<Rightarrow> s)"

definition write_memory :: "env \<Rightarrow> task \<Rightarrow> path \<Rightarrow> run_state \<Rightarrow> world \<Rightarrow> world" where
  "write_memory ev tk workspace s w =
     (let lesson = ''Task '' @ task_id tk @ '' completed with result '' @ str_opt (last_result s)
                     @ ''.'' @ [CHR 0x0A]
                   @ ''Files touched: '' @ join '', '' (files_touched s) @ [CHR 0x0A]
                   @ ''Workspace: '' @ str_path workspace @ [CHR 0x0A];
          metadata = [(''type'', JString ''lesson''),
                      (''tags'', JArray [JString ''ghost'', JString ''task'']),
                      (''confidence'', JNumber ''0.5''),
                      (''created'', JString (env_today ev))]
      in w \<lparr> w_memory := snd (write_lesson (task_id tk) lesson metadata (w_memory w)),
             w_events := w_events w @ [LessonWritten (task_id tk)] \<rparr>)"

subsection \<open>The phases\<close>

text \<open>
  A phase with a model turn (PLAN, IMPLEMENT, REPAIR): the turn, the actions, the
  parse error appended to the results as one more error record, the touched files
  merged. What is returned is the results and the updated state and world, or the
  exception of the gateway.
\<close>

definition turn_and_execute ::
  "env \<Rightarrow> path \<Rightarrow> bool \<Rightarrow> string \<Rightarrow> run_state \<Rightarrow> world \<Rightarrow> (exn + tool_result list \<times> run_state) \<times> world" where
  "turn_and_execute ev workspace goal_prints prompt s w =
     (case model_turn ev prompt w of
        (Inl e, w1) \<Rightarrow> (Inl e, w1)
      | (Inr (action_response, parse_error), w1) \<Rightarrow>
          (case execute_actions ev workspace goal_prints (actions action_response) w1 of
             (results, touched, w2) \<Rightarrow>
               (let results = (if truthy parse_error then results @ [ResError (the parse_error)]
                               else results);
                    s = s \<lparr> files_touched := merge_touched (files_touched s) touched \<rparr>
                in (Inr (results, s), w2))))"

text \<open>How one pass of \<open>while True\<close> ends.\<close>

datatype 'a flow = Continue 'a | Break 'a | Raise exn 'a

definition PLAN_PROMPT :: string where
  "PLAN_PROMPT = ''Create a short plan with steps and a verification strategy, ''
                 @ ''then write it to plan.md using write_file.''"

definition IMPLEMENT_PROMPT :: string where
  "IMPLEMENT_PROMPT = ''Implement the task. Use tools to read/write files as needed.''"

definition REPAIR_PROMPT :: string where
  "REPAIR_PROMPT = ''Fix the issues from the last step. Use tools to update files.''"

definition next_iteration :: "run_state \<Rightarrow> world \<Rightarrow> (run_state \<times> world) flow" where
  "next_iteration s w = (let s = s \<lparr> iteration := iteration s + 1 \<rparr> in Continue (s, write_state s w))"

definition plan_phase :: "env \<Rightarrow> path \<Rightarrow> path \<Rightarrow> bool \<Rightarrow> run_state \<Rightarrow> world \<Rightarrow> (run_state \<times> world) flow" where
  "plan_phase ev workspace artifacts_root goal_prints s w =
     (case turn_and_execute ev workspace goal_prints PLAN_PROMPT s w of
        (Inl e, w') \<Rightarrow> Raise e (s, w')
      | (Inr (results, s), w') \<Rightarrow>
          (let plan_path = resolve (env_cwd ev) (joinpath artifacts_root (Path ''plan.md''));
               s = (if has_errors results
                    then s \<lparr> phase := ''REPAIR'', last_result := Some ''plan_failed'' \<rparr>
                    else if \<not> path_exists (w_files w') (parts plan_path)
                    then s \<lparr> phase := ''REPAIR'', last_result := Some ''plan_missing'' \<rparr>
                    else s \<lparr> phase := ''IMPLEMENT'', last_result := Some ''plan_ok'' \<rparr>)
           in next_iteration s w'))"

definition implement_phase :: "env \<Rightarrow> path \<Rightarrow> bool \<Rightarrow> run_state \<Rightarrow> world \<Rightarrow> (run_state \<times> world) flow" where
  "implement_phase ev workspace goal_prints s w =
     (case turn_and_execute ev workspace goal_prints IMPLEMENT_PROMPT s w of
        (Inl e, w') \<Rightarrow> Raise e (s, w')
      | (Inr (results, s), w') \<Rightarrow>
          (let s = (if has_errors results
                    then s \<lparr> phase := ''REPAIR'', last_result := Some ''implement_failed'' \<rparr>
                    else s \<lparr> phase := ''VERIFY'', last_result := Some ''implement_ok'' \<rparr>)
           in next_iteration s w'))"

text \<open>VERIFY: the test command runs in the workspace root; whatever \<open>run_cmd\<close> raises
  counts as exit code 1.\<close>

definition verify_phase :: "env \<Rightarrow> task \<Rightarrow> path \<Rightarrow> run_state \<Rightarrow> world \<Rightarrow> (run_state \<times> world) flow" where
  "verify_phase ev tk workspace s w =
     (if truthy (test_cmd (task_constraints tk)) then
        (case run_cmd (env_spawn ev (w_calls w)) (env_cwd ev) (the (test_cmd (task_constraints tk)))
                ''.'' workspace None 30 4000 (w_files w) of
           (r, fsys) \<Rightarrow>
             (let result = (case r of
                              Inl exc \<Rightarrow> \<lparr> returncode = 1, output_text = str_exn exc \<rparr>
                            | Inr res \<Rightarrow> res);
                  w' = w \<lparr> w_files := fsys, w_calls := Suc (w_calls w) \<rparr>;
                  s = (if returncode result = 0
                       then s \<lparr> phase := ''DONE'', last_result := Some ''tests_passed'' \<rparr>
                       else s \<lparr> phase := ''REPAIR'', last_result := Some ''tests_failed'' \<rparr>)
              in next_iteration s w'))
      else next_iteration (s \<lparr> phase := ''DONE'', last_result := Some ''no_test_cmd'' \<rparr>) w)"

definition repair_phase :: "env \<Rightarrow> path \<Rightarrow> bool \<Rightarrow> run_state \<Rightarrow> world \<Rightarrow> (run_state \<times> world) flow" where
  "repair_phase ev workspace goal_prints s w =
     (case turn_and_execute ev workspace goal_prints REPAIR_PROMPT s w of
        (Inl e, w') \<Rightarrow> Raise e (s, w')
      | (Inr (results, s), w') \<Rightarrow>
          (let s = (if has_errors results
                    then s \<lparr> phase := ''REPAIR'', last_result := Some ''repair_failed'' \<rparr>
                    else s \<lparr> phase := ''VERIFY'', last_result := Some ''repair_ok'' \<rparr>)
           in next_iteration s w'))"

subsection \<open>The loop\<close>

definition entered :: "string \<Rightarrow> world \<Rightarrow> world" where
  "entered ph w = w \<lparr> w_events := w_events w @ [PhaseBody ph] \<rparr>"

text \<open>One pass of \<open>while True\<close>: the limit check, then the branch of the current phase.\<close>

definition loop_step ::
  "env \<Rightarrow> task \<Rightarrow> path \<Rightarrow> path \<Rightarrow> int \<Rightarrow> bool \<Rightarrow> run_state \<times> world \<Rightarrow> (run_state \<times> world) flow" where
  "loop_step ev tk workspace artifacts_root limit goal_prints sw =
     (case sw of (s, w) \<Rightarrow>
      if iteration s \<ge> limit then
        (let s = s \<lparr> phase := ''DONE'', last_result := Some ''iteration_limit'' \<rparr>;
             w = write_state s w;
             w = write_memory ev tk workspace s w
         in Break (s, w))
      else if phase s = ''INGEST'' then
        (let w = entered ''INGEST'' w;
             s = s \<lparr> phase := ''PLAN'' \<rparr>
         in Continue (s, write_state s w))
      else if phase s = ''PLAN'' then
        plan_phase ev workspace artifacts_root goal_prints s (entered ''PLAN'' w)
      else if phase s = ''IMPLEMENT'' then
        implement_phase ev workspace goal_prints s (entered ''IMPLEMENT'' w)
      else if phase s = ''VERIFY'' then
        verify_phase ev tk workspace s (entered ''VERIFY'' w)
      else if phase s = ''REPAIR'' then
        repair_phase ev workspace goal_prints s (entered ''REPAIR'' w)
      else if phase s = ''DONE'' then
        (let w = entered ''DONE'' w;
             w = write_memory ev tk workspace s w;
             w = write_state s w
         in Break (s, w))
      else
        (let s = s \<lparr> phase := ''DONE'', last_result := Some ''unknown_phase'' \<rparr>
         in Break (s, write_state s w)))"

text \<open>A pass that continues has either raised the iteration counter below the limit,
  or left INGEST with the counter unchanged; this is why the loop ends.\<close>

lemma turn_and_execute_state:
  "turn_and_execute ev workspace gp prompt s w = (Inr (results, s'), w') \<Longrightarrow>
   \<exists>t. s' = s \<lparr> files_touched := t \<rparr>"
  by (auto simp: turn_and_execute_def Let_def split: prod.splits sum.splits)

lemma plan_phase_flow:
  "(\<exists>e w'. plan_phase ev workspace art gp s w = Raise e (s, w')) \<or>
   (\<exists>s' w'. plan_phase ev workspace art gp s w = Continue (s', w') \<and> iteration s' = iteration s + 1)"
  unfolding plan_phase_def next_iteration_def
  by (auto simp: Let_def split: prod.splits sum.splits dest!: turn_and_execute_state)

lemma implement_phase_flow:
  "(\<exists>e w'. implement_phase ev workspace gp s w = Raise e (s, w')) \<or>
   (\<exists>s' w'. implement_phase ev workspace gp s w = Continue (s', w') \<and> iteration s' = iteration s + 1)"
  unfolding implement_phase_def next_iteration_def
  by (auto simp: Let_def split: prod.splits sum.splits dest!: turn_and_execute_state)

lemma repair_phase_flow:
  "(\<exists>e w'. repair_phase ev workspace gp s w = Raise e (s, w')) \<or>
   (\<exists>s' w'. repair_phase ev workspace gp s w = Continue (s', w') \<and> iteration s' = iteration s + 1)"
  unfolding repair_phase_def next_iteration_def
  by (auto simp: Let_def split: prod.splits sum.splits dest!: turn_and_execute_state)

lemma verify_phase_flow:
  "\<exists>s' w'. verify_phase ev tk workspace s w = Continue (s', w') \<and> iteration s' = iteration s + 1"
  unfolding verify_phase_def next_iteration_def
  by (auto simp: Let_def split: prod.splits sum.splits)

lemma loop_step_Continue:
  assumes "loop_step ev tk workspace art limit gp (s, w) = Continue (s', w')"
  shows "iteration s < limit \<and>
         (iteration s' = iteration s + 1 \<or>
          (iteration s' = iteration s \<and> phase s = ''INGEST'' \<and> phase s' \<noteq> ''INGEST''))"
proof -
  have lt: "iteration s < limit"
    using assms by (auto simp: loop_step_def Let_def split: if_splits)
  show ?thesis
  proof (cases "phase s = ''INGEST''")
    case True
    with assms lt show ?thesis by (auto simp: loop_step_def Let_def)
  next
    case False
    with assms lt show ?thesis
      using plan_phase_flow [of ev workspace art gp s "entered ''PLAN'' w"]
        implement_phase_flow [of ev workspace gp s "entered ''IMPLEMENT'' w"]
        repair_phase_flow [of ev workspace gp s "entered ''REPAIR'' w"]
        verify_phase_flow [of ev tk workspace s "entered ''VERIFY'' w"]
      by (auto simp: loop_step_def Let_def split: if_splits)
  qed
qed

text \<open>\<open>while True\<close>: the passes until one breaks or raises. The result is the exception
  that ended the run, if any, with the state and the world at that point.\<close>

function run_loop ::
  "env \<Rightarrow> task \<Rightarrow> path \<Rightarrow> path \<Rightarrow> int \<Rightarrow> bool \<Rightarrow> run_state \<times> world \<Rightarrow> exn option \<times> run_state \<times> world" where
  "run_loop ev tk workspace art limit gp sw =
     (case loop_step ev tk workspace art limit gp sw of
        Continue sw' \<Rightarrow> run_loop ev tk workspace art limit gp sw'
      | Break sw' \<Rightarrow> (None, sw')
      | Raise e sw' \<Rightarrow> (Some e, sw'))"
  by pat_completeness auto
termination
proof (relation "measures [\<lambda>(ev, tk, workspace, art, limit, gp, s, w). nat (limit - iteration s),
                           \<lambda>(ev, tk, workspace, art, limit, gp, s, w). if phase s = ''INGEST'' then 1 else 0]")
  show "wf (measures [\<lambda>(ev, tk, workspace, art, limit, gp, s, w). nat (limit - iteration s),
                      \<lambda>(ev, tk, workspace, art, limit, gp, s, w). if phase s = ''INGEST'' then 1 else 0])"
    by simp
next
  fix ev tk workspace art limit gp sw x1
  assume "loop_step ev tk workspace art limit gp sw = Continue x1"
  then show "((ev, tk, workspace, art, limit, gp, x1), ev, tk, workspace, art, limit, gp, sw)
       \<in> measures [\<lambda>(ev, tk, workspace, art, limit, gp, s, w). nat (limit - iteration s),
                    \<lambda>(ev, tk, workspace, art, limit, gp, s, w). if phase s = ''INGEST'' then 1 else 0]"
    using loop_step_Continue [of ev tk workspace art limit gp "fst sw" "snd sw" "fst x1" "snd x1"]
    by (cases sw; cases x1) auto
qed

declare run_loop.simps [simp del]

text \<open>\<open>constraints.get("iteration_limit") or constraints.get("time_budget_iters") or 8\<close>:
  \<open>or\<close> passes over an absent value and over 0.\<close>

definition effective_limit :: "constraints \<Rightarrow> int" where
  "effective_limit c =
     (case iteration_limit c of
        Some n \<Rightarrow> (if n \<noteq> 0 then n else
                     (case time_budget_iters c of Some m \<Rightarrow> (if m \<noteq> 0 then m else 8) | None \<Rightarrow> 8))
      | None \<Rightarrow> (case time_budget_iters c of Some m \<Rightarrow> (if m \<noteq> 0 then m else 8) | None \<Rightarrow> 8))"

definition goal_prints_of :: "task \<Rightarrow> bool" where
  "goal_prints_of tk =
     (let goal_lower = lower (goal tk) in sublist ''print'' goal_lower \<or> sublist ''prints'' goal_lower)"

text \<open>\<open>_run_loop\<close>: the limit and the print flag are taken from the task once, the
  artifacts are kept in the workspace unless another directory is given, then the
  loop runs. The memory notes retrieved for the first message only reach the gateway.\<close>

definition start_run_loop ::
  "env \<Rightarrow> task \<Rightarrow> path \<Rightarrow> path option \<Rightarrow> run_state \<Rightarrow> world \<Rightarrow> exn option \<times> run_state \<times> world" where
  "start_run_loop ev tk workspace artifacts_root s w =
     run_loop ev tk workspace (case artifacts_root of None \<Rightarrow> workspace | Some a \<Rightarrow> a)
       (effective_limit (task_constraints tk)) (goal_prints_of tk) (s, w)"

subsection \<open>Counting what a run did\<close>

fun is_work_body :: "event \<Rightarrow> bool" where
  "is_work_body (PhaseBody ph) = (ph \<in> {''PLAN'', ''IMPLEMENT'', ''VERIFY'', ''REPAIR''})"
| "is_work_body _ = False"

fun is_lesson :: "event \<Rightarrow> bool" where
  "is_lesson (LessonWritten t) = True"
| "is_lesson _ = False"

definition work_bodies :: "event list \<Rightarrow> nat" where
  "work_bodies evs = length (filter is_work_body evs)"

definition lessons :: "event list \<Rightarrow> nat" where
  "lessons evs = length (filter is_lesson evs)"

subsection \<open>Concrete runs\<close>

text \<open>A world with an empty workspace and an empty memory store, a gateway whose
  every reply is the given text, and processes that all exit with the given code.\<close>

definition empty_world :: world where
  "empty_world = \<lparr> w_files = [([''ws''], Dir)], w_memory = empty_store, w_state_json = None,
                    w_calls = 0, w_events = [] \<rparr>"

definition fixed_env :: "string \<Rightarrow> int \<Rightarrow> env" where
  "fixed_env reply rc = \<lparr> env_cwd = [''ws''], env_today = ''2026-01-01'',
                           env_chat = (\<lambda>n. Inr reply),
                           env_spawn = (\<lambda>n. exits_with rc [] []) \<rparr>"

definition sample_task :: "int option \<Rightarrow> task" where
  "sample_task n = \<lparr> task_id = ''t1'', title = ''Sample'', goal = ''Add a function'',
                      task_constraints = \<lparr> iteration_limit = n, time_budget_iters = None,
                                            test_cmd = Some ''pytest -q'' \<rparr>,
                      task_context = [] \<rparr>"

definition workspace_root :: path where
  "workspace_root = \<lparr> is_absolute = True, parts = [''ws''] \<rparr>"


subsection \<open>What a phase, a pass and a run keep\<close>

text \<open>A phase with work either continues, with the counter one higher and the new state
  written, or raises with the state as it was; VERIFY never raises.\<close>

definition step_ok :: "string \<Rightarrow> run_state \<Rightarrow> world \<Rightarrow> (run_state \<times> world) flow \<Rightarrow> bool" where
  "step_ok ph s w f =
     (case f of
        Continue (s', w') \<Rightarrow> iteration s' = iteration s + 1 \<and>
                               w_events w' = w_events w @ [StateWritten s']
      | Break sw \<Rightarrow> False
      | Raise e (s', w') \<Rightarrow> s' = s \<and> w_events w' = w_events w \<and> ph \<noteq> ''VERIFY'')"

text \<open>What one pass of the loop does to the counter and to the events.\<close>

definition pass_ok :: "int \<Rightarrow> run_state \<Rightarrow> world \<Rightarrow> (run_state \<times> world) flow \<Rightarrow> bool" where
  "pass_ok limit s w f =
     (case f of
        Continue (s', w') \<Rightarrow>
          iteration s < limit \<and>
          w_events w' = w_events w @ [PhaseBody (phase s), StateWritten s'] \<and>
          (if phase s = ''INGEST'' then iteration s' = iteration s
           else is_work_body (PhaseBody (phase s)) \<and> iteration s' = iteration s + 1)
      | Break (s', w') \<Rightarrow>
          iteration s' = iteration s \<and> phase s' = ''DONE'' \<and>
          work_bodies (w_events w') = work_bodies (w_events w) \<and>
          (limit \<le> iteration s \<longrightarrow> last_result s' = Some ''iteration_limit'')
      | Raise e (s', w') \<Rightarrow>
          iteration s < limit \<and> s' = s \<and> is_work_body (PhaseBody (phase s)) \<and>
          w_events w' = w_events w @ [PhaseBody (phase s)])"

text \<open>What a whole run does to them.\<close>

definition run_ok :: "int \<Rightarrow> run_state \<Rightarrow> world \<Rightarrow> exn option \<times> run_state \<times> world \<Rightarrow> bool" where
  "run_ok limit s w r =
     (case r of (exc, s', w') \<Rightarrow>
        iteration s \<le> iteration s' \<and>
        int (work_bodies (w_events w')) =
          int (work_bodies (w_events w)) + (iteration s' - iteration s) + (if exc = None then 0 else 1) \<and>
        iteration s' \<le> max (iteration s) limit \<and>
        (exc \<noteq> None \<longrightarrow> iteration s' < limit) \<and>
        (exc = None \<longrightarrow> phase s' = ''DONE'' \<and>
           (limit \<le> iteration s' \<longrightarrow> last_result s' = Some ''iteration_limit'')))"


section \<open>Properties of path containment\<close>





lemma safe_path_allows_relative:
  "safe_path [''tmp''] (Path ''/tmp/workspace'') ''notes.txt''
     = Inr \<lparr> is_absolute = True, parts = [''tmp'', ''workspace'', ''notes.txt''] \<rparr>"
  by (simp add: safe_path_def Path_def resolve_def joinpath_def is_relative_to_def)

lemma safe_path_blocks_escape:
  "safe_path [''tmp''] (Path ''/tmp/workspace'') ''../outside.txt''
     = Inl (FsError ''Path escapes workspace: ../outside.txt'')"
  by (simp add: safe_path_def Path_def resolve_def joinpath_def is_relative_to_def)

lemma safe_path_blocks_absolute_elsewhere:
  "safe_path [''tmp''] (Path ''/tmp/workspace'') ''/etc/passwd''
     = Inl (FsError ''Path escapes workspace: /etc/passwd'')"
  by (simp add: safe_path_def Path_def resolve_def joinpath_def is_relative_to_def)



section \<open>Properties of command containment\<close>








lemma run_cmd_blocks_unlisted_exe:
  "run_cmd (exits_with 0 ''hello'' []) [''tmp''] ''echo hello'' ''.'' (Path ''/tmp/workspace'') None 30 4000 ()
     = (Inl (CmdError ''Command not allowed: echo''), ())"
  by (simp add: run_cmd_def extract_exe_def split_cmd_def shlex_split_def shlex_whitespace_def
      shlex_quote_def shlex_escape_def Path_def name_def lower_def lower_char_def blocked_def
      BLOCKLIST_TOKENS_def allow_set_def DEFAULT_ALLOWLIST_def sublist_Cons_right)




section \<open>Properties of the memory index\<close>

subsection \<open>Which notes are ranked\<close>

lemma bump_keys: "fst ` set (bump p sc) = insert p (fst ` set sc)"
  by (induction p sc rule: bump.induct) auto

lemma fold_bump_keys: "fst ` set (fold bump ps sc) = set ps \<union> fst ` set sc"
  by (induction ps arbitrary: sc) (auto simp: bump_keys)

lemma score_fold_keys:
  "fst ` set (fold (\<lambda>token scores. fold bump (index_get idx token) scores) tokens sc)
     = (\<Union>t \<in> set tokens. set (index_get idx t)) \<union> fst ` set sc"
  by (induction tokens arbitrary: sc) (auto simp: fold_bump_keys)

lemma score_all_keys:
  "fst ` set (score_all idx tokens) = (\<Union>t \<in> set tokens. set (index_get idx t))"
  by (simp add: score_all_def score_fold_keys)

text \<open>The ranked notes are exactly the notes listed under some token of the query.\<close>

lemma ranked_keys:
  "fst ` set (ranked st query) = (\<Union>t \<in> set (tokenize query). set (index_get (index st) t))"
  by (simp add: ranked_def score_all_keys)

subsection \<open>Merging a note into the index\<close>

lemma listed_index_get: "listed rel idx t \<longleftrightarrow> rel \<in> set (index_get idx t)"
  by (cases "idx t") (auto simp: listed_def index_get_def)

lemma listed_index_add: "listed rel (index_add rel a idx) t \<longleftrightarrow> t = a \<or> listed rel idx t"
  by (cases "idx a"; cases "idx t") (auto simp: listed_def index_add_def index_get_def Let_def)

lemma listed_fold:
  "listed rel (fold (index_add rel) toks idx) t \<longleftrightarrow> t \<in> set toks \<or> listed rel idx t"
  by (induction toks arbitrary: idx) (auto simp: listed_index_add)

lemma index_add_idem: "listed rel idx a \<Longrightarrow> index_add rel a idx = idx"
  by (auto simp: listed_def index_add_def index_get_def Let_def)

lemma fold_index_add_idem:
  "\<forall>t \<in> set toks. listed rel idx t \<Longrightarrow> fold (index_add rel) toks idx = idx"
  by (induction toks arbitrary: idx) (auto simp: index_add_idem)

lemma write_lesson_idem:
  "snd (write_lesson tid content metadata (snd (write_lesson tid content metadata st)))
     = snd (write_lesson tid content metadata st)"
  by (simp add: write_lesson_def Let_def update_index_def fold_index_add_idem listed_fold)

lemma slice_to_all: "int (length xs) \<le> k \<Longrightarrow> slice_to k xs = xs"
  by (auto simp: slice_to_def)

lemma map_filter_mem: "x \<in> set xs \<Longrightarrow> f x = Some y \<Longrightarrow> y \<in> set (List.map_filter f xs)"
  by (auto simp: List.map_filter_def intro!: image_eqI [where x = x])

subsection \<open>Writing a lesson, then retrieving\<close>

text \<open>
  C8, as the code has it. After \<open>write_lesson\<close>, a query that shares a token with the
  written note ranks that note; \<open>retrieve\<close> returns the note's text whenever the note
  is among the first \<open>limit\<close> entries of the ranking, in particular whenever at most
  \<open>limit\<close> notes are ranked. Writing the same lesson again changes nothing: no token
  gets the note's path a second time.
\<close>

theorem write_lesson_then_retrieve:
  assumes t1: "token \<in> set (tokenize (format_note metadata content))"
    and t2: "token \<in> set (tokenize query)"
  shows "let st' = snd (write_lesson tid content metadata st);
             written = format_note metadata content
         in lesson_path tid \<in> fst ` set (ranked st' query) \<and>
            (lesson_path tid \<in> fst ` set (slice_to limit (ranked st' query)) \<longrightarrow>
               written \<in> set (fst (retrieve query limit st'))) \<and>
            (int (length (ranked st' query)) \<le> limit \<longrightarrow>
               written \<in> set (fst (retrieve query limit st'))) \<and>
            snd (write_lesson tid content metadata st') = st'"
proof -
  let ?rel = "lesson_path tid"
  let ?note = "format_note metadata content"
  let ?st' = "snd (write_lesson tid content metadata st)"
  have idx: "index ?st' = fold (index_add ?rel) (tokenize ?note) (index st)"
    and nt: "note_files ?st' ?rel = Some ?note"
    by (simp_all add: write_lesson_def Let_def update_index_def)
  have "listed ?rel (index ?st') token"
    using t1 by (simp add: idx listed_fold)
  then have "?rel \<in> set (index_get (index ?st') token)"
    by (simp add: listed_index_get)
  with t2 have cand: "?rel \<in> fst ` set (ranked ?st' query)"
    by (auto simp: ranked_keys)
  have first: "?note \<in> set (fst (retrieve query limit ?st'))"
    if "?rel \<in> fst ` set (slice_to limit (ranked ?st' query))"
  proof -
    from that obtain item
      where "item \<in> set (slice_to limit (ranked ?st' query))" and "fst item = ?rel"
      by auto
    then show ?thesis
      using nt by (auto simp: retrieve_def intro: map_filter_mem)
  qed
  have all: "?note \<in> set (fst (retrieve query limit ?st'))"
    if "int (length (ranked ?st' query)) \<le> limit"
    using that cand first by (simp add: slice_to_all)
  show ?thesis
    unfolding Let_def using cand first all write_lesson_idem by blast
qed

theorem write_lesson_then_retrieve_witness:
  "''alpha'' \<in> set (tokenize (format_note [] ''alpha one'')) \<and>
   ''alpha'' \<in> set (tokenize ''more alpha'') \<and>
   int (length (ranked (snd (write_lesson ''t1'' ''alpha one'' [] empty_store)) ''more alpha'')) \<le> 3 \<and>
   format_note [] ''alpha one''
     \<in> set (fst (retrieve ''more alpha'' 3 (snd (write_lesson ''t1'' ''alpha one'' [] empty_store))))"
proof -
  have t1: "''alpha'' \<in> set (tokenize (format_note [] ''alpha one''))"
    by code_simp
  have t2: "''alpha'' \<in> set (tokenize ''more alpha'')"
    by code_simp
  have few: "int (length (ranked (snd (write_lesson ''t1'' ''alpha one'' [] empty_store)) ''more alpha'')) \<le> 3"
    by code_simp
  from write_lesson_then_retrieve [OF t1 t2, of "''t1''" empty_store 3] few
  have "format_note [] ''alpha one''
     \<in> set (fst (retrieve ''more alpha'' 3 (snd (write_lesson ''t1'' ''alpha one'' [] empty_store))))"
    by (simp add: Let_def)
  with t1 t2 few show ?thesis by blast
qed

text \<open>The claim as stated, for every store and limit, fails: after three lessons that
  contain \<open>alpha\<close>, a fourth lesson containing \<open>alpha\<close> is ranked fourth, and
  \<open>retrieve\<close> with the default limit 3 does not return it.\<close>

theorem retrieve_misses_new_lesson_counterexample:
  "''alpha'' \<in> set (tokenize (format_note [] ''alpha four'')) \<and>
   ''alpha'' \<in> set (tokenize ''alpha'') \<and>
   format_note [] ''alpha four''
     \<notin> set (fst (retrieve ''alpha'' 3 (snd (write_lesson ''t4'' ''alpha four'' [] three_lessons))))"
  by code_simp

subsection \<open>Stale index entries\<close>

text \<open>
  C10. \<open>retrieve\<close> returns the store as it was (the index is not modified, a stale
  entry stays); its results are the texts of the notes that exist among the first
  \<open>limit\<close> ranked entries, so the cut to \<open>limit\<close> comes before the existence check;
  and there is a store with at least \<open>limit\<close> existing notes that match the query for
  which fewer than \<open>limit\<close> results are returned.
\<close>

theorem retrieve_truncates_before_exists:
  "snd (retrieve query limit st) = st \<and>
   fst (retrieve query limit st)
     = List.map_filter (\<lambda>item. note_files st (fst item)) (slice_to limit (ranked st query)) \<and>
   (\<exists>st0 q l. l \<le> int (length (filter (\<lambda>item. note_files st0 (fst item) \<noteq> None) (ranked st0 q))) \<and>
              int (length (fst (retrieve q l st0))) < l \<and>
              index (snd (retrieve q l st0)) = index st0)"
proof -
  have "1 \<le> int (length (filter (\<lambda>item. note_files stale_store (fst item) \<noteq> None)
                     (ranked stale_store ''alpha''))) \<and>
        int (length (fst (retrieve ''alpha'' 1 stale_store))) < 1"
    by code_simp
  moreover have "index (snd (retrieve ''alpha'' 1 stale_store)) = index stale_store"
    by (simp add: retrieve_def)
  ultimately have "\<exists>st0 q l.
      l \<le> int (length (filter (\<lambda>item. note_files st0 (fst item) \<noteq> None) (ranked st0 q))) \<and>
      int (length (fst (retrieve q l st0))) < l \<and>
      index (snd (retrieve q l st0)) = index st0"
    by blast
  then show ?thesis
    by (simp add: retrieve_def)
qed


section \<open>Properties of the run loop\<close>

subsection \<open>Events, counter and phases along a run\<close>

lemma execute_action_events:
  "execute_action ev ws gp a w = (r, t, w') \<Longrightarrow> w_events w' = w_events w \<and> w_memory w' = w_memory w \<and> w_state_json w' = w_state_json w"
  by (cases a) (auto simp: execute_action_def Let_def split: if_splits prod.splits sum.splits)

lemma execute_actions_events:
  "execute_actions ev ws gp as w = (rs, t, w') \<Longrightarrow> w_events w' = w_events w \<and> w_memory w' = w_memory w \<and> w_state_json w' = w_state_json w"
proof (induction as arbitrary: w rs t w')
  case Nil
  then show ?case by simp
next
  case (Cons a as)
  then show ?case
    by (auto split: prod.splits dest!: execute_action_events)
qed

lemma turn_and_execute_events:
  "turn_and_execute ev ws gp prompt s w = (r, w') \<Longrightarrow> w_events w' = w_events w \<and> w_memory w' = w_memory w"
  by (auto simp: turn_and_execute_def model_turn_def Let_def split: prod.splits sum.splits dest!: execute_actions_events)

lemma next_iteration_events:
  "next_iteration s w = Continue (s \<lparr> iteration := iteration s + 1 \<rparr>,
      w \<lparr> w_state_json := Some (s \<lparr> iteration := iteration s + 1 \<rparr>),
          w_events := w_events w @ [StateWritten (s \<lparr> iteration := iteration s + 1 \<rparr>)] \<rparr>)"
  by (simp add: next_iteration_def Let_def write_state_def)

lemma turn_and_execute_facts:
  assumes "turn_and_execute ev ws gp prompt s w = (r, w')"
  shows "w_events w' = w_events w \<and> w_memory w' = w_memory w \<and>
         (\<forall>results s'. r = Inr (results, s') \<longrightarrow> iteration s' = iteration s \<and> phase s' = phase s \<and> last_result s' = last_result s)"
  using turn_and_execute_events [OF assms] turn_and_execute_state [of ev ws gp prompt s w _ _ w'] assms
  by auto

lemma plan_phase_ok: "step_ok ''PLAN'' s w (plan_phase ev ws art gp s w)"
proof (cases "turn_and_execute ev ws gp PLAN_PROMPT s w")
  case (Pair r w')
  from turn_and_execute_facts [OF Pair] show ?thesis
    unfolding plan_phase_def step_ok_def
    by (cases r) (auto simp: Pair Let_def next_iteration_events)
qed

lemma implement_phase_ok: "step_ok ''IMPLEMENT'' s w (implement_phase ev ws gp s w)"
proof (cases "turn_and_execute ev ws gp IMPLEMENT_PROMPT s w")
  case (Pair r w')
  from turn_and_execute_facts [OF Pair] show ?thesis
    unfolding implement_phase_def step_ok_def
    by (cases r) (auto simp: Pair Let_def next_iteration_events)
qed

lemma repair_phase_ok: "step_ok ''REPAIR'' s w (repair_phase ev ws gp s w)"
proof (cases "turn_and_execute ev ws gp REPAIR_PROMPT s w")
  case (Pair r w')
  from turn_and_execute_facts [OF Pair] show ?thesis
    unfolding repair_phase_def step_ok_def
    by (cases r) (auto simp: Pair Let_def next_iteration_events)
qed

lemma verify_phase_ok: "step_ok ''VERIFY'' s w (verify_phase ev tk ws s w)"
  unfolding verify_phase_def step_ok_def
  by (auto simp: Let_def next_iteration_events split: prod.splits sum.splits)

lemma loop_step_pass_ok: "pass_ok limit s w (loop_step ev tk ws art limit gp (s, w))"
proof -
  consider (lim) "limit \<le> iteration s"
    | (ingest) "iteration s < limit" "phase s = ''INGEST''"
    | (plan) "iteration s < limit" "phase s = ''PLAN''"
    | (impl) "iteration s < limit" "phase s = ''IMPLEMENT''"
    | (verify) "iteration s < limit" "phase s = ''VERIFY''"
    | (repair) "iteration s < limit" "phase s = ''REPAIR''"
    | (fin) "iteration s < limit" "phase s = ''DONE''"
    | (other) "iteration s < limit" "phase s \<notin> {''INGEST'', ''PLAN'', ''IMPLEMENT'', ''VERIFY'', ''REPAIR'', ''DONE''}"
    by fastforce
  then show ?thesis
  proof cases
    case lim
    then show ?thesis
      by (simp add: pass_ok_def loop_step_def Let_def write_state_def write_memory_def work_bodies_def)
  next
    case ingest
    then show ?thesis
      by (simp add: pass_ok_def loop_step_def Let_def write_state_def entered_def)
  next
    case plan
    with plan_phase_ok [of s "entered ''PLAN'' w" ev ws art gp] show ?thesis
      by (auto simp: pass_ok_def step_ok_def loop_step_def entered_def split: flow.splits)
  next
    case impl
    with implement_phase_ok [of s "entered ''IMPLEMENT'' w" ev ws gp] show ?thesis
      by (auto simp: pass_ok_def step_ok_def loop_step_def entered_def split: flow.splits)
  next
    case verify
    with verify_phase_ok [of s "entered ''VERIFY'' w" ev tk ws] show ?thesis
      by (auto simp: pass_ok_def step_ok_def loop_step_def entered_def split: flow.splits)
  next
    case repair
    with repair_phase_ok [of s "entered ''REPAIR'' w" ev ws gp] show ?thesis
      by (auto simp: pass_ok_def step_ok_def loop_step_def entered_def split: flow.splits)
  next
    case fin
    then show ?thesis
      by (simp add: pass_ok_def loop_step_def Let_def write_state_def write_memory_def entered_def work_bodies_def)
  next
    case other
    then show ?thesis
      by (simp add: pass_ok_def loop_step_def Let_def write_state_def work_bodies_def)
  qed
qed

lemma run_loop_run_ok: "run_ok limit (fst sw) (snd sw) (run_loop ev tk ws art limit gp sw)"
proof (induction ev tk ws art limit gp sw rule: run_loop.induct)
  case (1 ev tk ws art limit gp sw)
  obtain s w where sw: "sw = (s, w)" by (cases sw)
  have pass: "pass_ok limit s w (loop_step ev tk ws art limit gp (s, w))"
    by (rule loop_step_pass_ok)
  show ?case
  proof (cases "loop_step ev tk ws art limit gp (s, w)")
    case (Continue sw')
    obtain s1 w1 where sw': "sw' = (s1, w1)" by (cases sw')
    from "1.IH" [of sw'] Continue sw
    have ih: "run_ok limit s1 w1 (run_loop ev tk ws art limit gp (s1, w1))"
      by (simp add: sw')
    have eq: "run_loop ev tk ws art limit gp (s, w) = run_loop ev tk ws art limit gp (s1, w1)"
      by (subst run_loop.simps) (simp add: Continue sw')
    from pass Continue sw' have step:
      "iteration s < limit" "w_events w1 = w_events w @ [PhaseBody (phase s), StateWritten s1]"
      "if phase s = ''INGEST'' then iteration s1 = iteration s
       else is_work_body (PhaseBody (phase s)) \<and> iteration s1 = iteration s + 1"
      by (auto simp: pass_ok_def split: if_splits)
    have wb: "int (work_bodies (w_events w1)) = int (work_bodies (w_events w)) + (iteration s1 - iteration s)"
      using step(2,3) by (auto simp: work_bodies_def split: if_splits)
    have it: "iteration s \<le> iteration s1" "iteration s1 \<le> limit"
      using step(1,3) by (auto split: if_splits)
    show ?thesis
      using ih wb it unfolding sw eq
      by (auto simp: run_ok_def split: prod.splits)
  next
    case (Break sw')
    obtain s1 w1 where sw': "sw' = (s1, w1)" by (cases sw')
    have eq: "run_loop ev tk ws art limit gp (s, w) = (None, s1, w1)"
      by (subst run_loop.simps) (simp add: Break sw')
    from pass Break sw' show ?thesis
      unfolding sw eq by (auto simp: run_ok_def pass_ok_def)
  next
    case (Raise e sw')
    obtain s1 w1 where sw': "sw' = (s1, w1)" by (cases sw')
    have eq: "run_loop ev tk ws art limit gp (s, w) = (Some e, s1, w1)"
      by (subst run_loop.simps) (simp add: Raise sw')
    from pass Raise sw' show ?thesis
      unfolding sw eq by (auto simp: run_ok_def pass_ok_def work_bodies_def)
  qed
qed

subsection \<open>The iteration limit\<close>







subsection \<open>The iteration counter\<close>

lemma pass_iteration:
  "(\<forall>s1 w1. loop_step ev tk ws art limit gp (s, w) = Continue (s1, w1) \<longrightarrow>
       iteration s < limit \<and>
       phase s \<in> {''INGEST'', ''PLAN'', ''IMPLEMENT'', ''VERIFY'', ''REPAIR''} \<and>
       iteration s1 = iteration s + (if phase s = ''INGEST'' then 0 else 1) \<and>
       w_events w1 = w_events w @ [PhaseBody (phase s), StateWritten s1]) \<and>
   (\<forall>s1 w1. loop_step ev tk ws art limit gp (s, w) = Break (s1, w1) \<longrightarrow>
       iteration s1 = iteration s \<and> work_bodies (w_events w1) = work_bodies (w_events w))"
  using loop_step_pass_ok [of limit s w ev tk ws art gp]
  by (auto simp: pass_ok_def split: if_splits)

lemma pass_done:
  "iteration s < limit \<Longrightarrow> phase s = ''DONE'' \<Longrightarrow>
   \<exists>w1. loop_step ev tk ws art limit gp (s, w) = Break (s, w1)"
  by (simp add: loop_step_def Let_def)

lemma pass_ingest:
  "iteration s < limit \<Longrightarrow> phase s = ''INGEST'' \<Longrightarrow>
   \<exists>w1. loop_step ev tk ws art limit gp (s, w) = Continue (s \<lparr> phase := ''PLAN'' \<rparr>, w1)"
  by (simp add: loop_step_def Let_def)

text \<open>
  C9. Along a run the iteration counter never decreases, and in a run that ends
  without an exception it has grown by exactly the number of bodies of PLAN, IMPLEMENT,
  VERIFY and REPAIR that were executed. Pass by pass: a pass that continues is the
  body of INGEST, which leaves the counter as it is, or one of those four bodies, which
  adds one; a pass that breaks (the limit cutoff, the body of DONE, the fallback for an
  unknown phase) leaves the counter as it is; below the limit, INGEST passes to PLAN
  and DONE breaks with the state unchanged.
\<close>

theorem iteration_counts_work_bodies:
  assumes run: "run_loop ev tk ws art limit gp (s, w) = (exc, s', w')"
  shows "iteration s \<le> iteration s' \<and>
         (exc = None \<longrightarrow>
            iteration s' - iteration s = int (work_bodies (w_events w')) - int (work_bodies (w_events w))) \<and>
         (\<forall>s1 w1. loop_step ev tk ws art limit gp (s, w) = Continue (s1, w1) \<longrightarrow>
            phase s \<in> {''INGEST'', ''PLAN'', ''IMPLEMENT'', ''VERIFY'', ''REPAIR''} \<and>
            iteration s1 = iteration s + (if phase s = ''INGEST'' then 0 else 1) \<and>
            w_events w1 = w_events w @ [PhaseBody (phase s), StateWritten s1]) \<and>
         (\<forall>s1 w1. loop_step ev tk ws art limit gp (s, w) = Break (s1, w1) \<longrightarrow>
            iteration s1 = iteration s \<and> work_bodies (w_events w1) = work_bodies (w_events w)) \<and>
         (iteration s < limit \<and> phase s = ''INGEST'' \<longrightarrow>
            (\<exists>w1. loop_step ev tk ws art limit gp (s, w) = Continue (s \<lparr> phase := ''PLAN'' \<rparr>, w1))) \<and>
         (iteration s < limit \<and> phase s = ''DONE'' \<longrightarrow>
            (\<exists>w1. loop_step ev tk ws art limit gp (s, w) = Break (s, w1)))"
proof -
  have "run_ok limit s w (exc, s', w')"
    using run_loop_run_ok [of limit "(s, w)" ev tk ws art gp] run by simp
  then have a: "iteration s \<le> iteration s'"
    and b: "exc = None \<longrightarrow>
            iteration s' - iteration s = int (work_bodies (w_events w')) - int (work_bodies (w_events w))"
    by (auto simp: run_ok_def)
  show ?thesis
    using a b pass_iteration [of ev tk ws art limit gp s w] pass_done [of s limit ev tk ws art gp w]
      pass_ingest [of s limit ev tk ws art gp w]
    by blast
qed

subsection \<open>The end of a run\<close>

text \<open>The fallback for a phase that is none of the six: the state is set to DONE with
  the tag \<open>unknown_phase\<close> and written, and the loop stops; no lesson is written.\<close>

lemma unknown_phase_fallback:
  assumes "iteration s < limit"
    and "phase s \<notin> {''INGEST'', ''PLAN'', ''IMPLEMENT'', ''VERIFY'', ''REPAIR'', ''DONE''}"
  shows "run_loop ev tk ws art limit gp (s, w) =
           (None, s \<lparr> phase := ''DONE'', last_result := Some ''unknown_phase'' \<rparr>,
            write_state (s \<lparr> phase := ''DONE'', last_result := Some ''unknown_phase'' \<rparr>) w)"
  using assms by (subst run_loop.simps) (simp add: loop_step_def Let_def)

text \<open>
  C7 at a resumed state whose phase is \<open>BOGUS\<close>: the run ends in DONE with the tag
  \<open>unknown_phase\<close>, the only event is the write of the final state, and the memory
  store is as it was: no lesson has been written.
\<close>

theorem unknown_phase_writes_no_lesson:
  "start_run_loop (fixed_env ''nope'' 1) (sample_task None) workspace_root None
       (initial_state \<lparr> phase := ''BOGUS'' \<rparr>) empty_world
     = (None,
        initial_state \<lparr> phase := ''DONE'', last_result := Some ''unknown_phase'' \<rparr>,
        empty_world \<lparr> w_state_json := Some (initial_state \<lparr> phase := ''DONE'', last_result := Some ''unknown_phase'' \<rparr>),
                      w_events := [StateWritten (initial_state \<lparr> phase := ''DONE'', last_result := Some ''unknown_phase'' \<rparr>)] \<rparr>)"
proof -
  have "effective_limit (task_constraints (sample_task None)) = 8"
    by (simp add: effective_limit_def sample_task_def)
  moreover have "iteration (initial_state \<lparr> phase := ''BOGUS'' \<rparr>) < 8"
    and "phase (initial_state \<lparr> phase := ''BOGUS'' \<rparr>)
           \<notin> {''INGEST'', ''PLAN'', ''IMPLEMENT'', ''VERIFY'', ''REPAIR'', ''DONE''}"
    by (simp_all add: initial_state_def)
  ultimately show ?thesis
    unfolding start_run_loop_def
    by (simp add: unknown_phase_fallback write_state_def empty_world_def initial_state_def)
qed


end
